theory Spec2Isabelle
  imports Main
begin

section \<open>Panthor update notification: the version-check-and-notify cycle\<close>

text \<open>
  A shallow embedding of \<^verbatim>\<open>main.go\<close>. The program polls the changelog API, compares
  the newest entry's version with the one saved in \<^verbatim>\<open>version.yml\<close>, and on a change
  saves the new version and posts a payload to every configured webhook.

  Everything the program does to the outside is explicit:
  \<^item> the file \<^verbatim>\<open>version.yml\<close> is a field of the process state (\<open>None\<close>: no file);
    reading it fails exactly when it is absent, and only this program writes it;
  \<^item> the network and the outcome of a file write are read from a \<open>world\<close>, one per
    run of the start-up block or of the scheduled callback;
  \<^item> the encoders and decoders of the libraries (\<^verbatim>\<open>gopkg.in/yaml.v3\<close>,
    \<^verbatim>\<open>encoding/json\<close>) are parameters, collected in a record \<open>lib\<close>;
  \<^item> every write, every POST and every log line is appended to a trace of events;
  \<^item> \<^verbatim>\<open>log.Fatalln\<close> ends the process: the status \<open>Exited\<close>.
\<close>

subsection \<open>Data\<close>

record App =
  Interval :: string
  LoadOnStartup :: bool

record Notification =
  Webhooks :: "string list"

record Config =
  App :: App
  Notification :: Notification

record Version =
  Version :: string

record Changelog =
  ID :: int
  Version :: string
  ChangeMission :: "string list"
  ChangeMap :: "string list"
  ChangeMod :: "string list"
  Note :: string
  Active :: int
  Size :: string
  ReallifeRpg :: int
  ReleaseAt :: string
  CreatedAt :: string
  UpdatedAt :: string

record ChangelogResponse =
  Data :: "Changelog list"
  RequestedAt :: int

text \<open>
  Go's \<^verbatim>\<open>error\<close> values: one handed over by the operating system, the network or a
  library (by its text), one wrapped by \<^verbatim>\<open>fmt.Errorf("...: %w", err)\<close>, and the one
  built by \<^verbatim>\<open>fmt.Errorf("unexpected status code: %d", code)\<close>.
\<close>

datatype error =
    Extern string
  | Errorf string error
  | UnexpectedStatus int

text \<open>A value of type \<^verbatim>\<open>interface{}\<close>: a string, or a value of any other dynamic type.\<close>

datatype dyn = String string | Other

record Response =
  StatusCode :: int
  Body :: string

text \<open>
  The outcome of \<^verbatim>\<open>os.WriteFile\<close>. A failed write may leave the file absent,
  untouched, truncated or partly written: the world says what is left.
\<close>

datatype write_outcome = Written | WriteFailed error "string option"

text \<open>
  The library functions the program calls and whose code is not part of it:
  \<^verbatim>\<open>yaml.Marshal\<close> and \<^verbatim>\<open>yaml.Unmarshal\<close> at the type \<open>Version\<close>, \<^verbatim>\<open>json.Marshal\<close>
  at \<^verbatim>\<open>map[string]interface{}\<close> (the map literal as the list of its entries), and the
  JSON decoder at \<open>ChangelogResponse\<close>.
\<close>

record lib =
  yaml_Marshal :: "Version \<Rightarrow> error + string"
  yaml_Unmarshal :: "string \<Rightarrow> error + Version"
  json_Marshal :: "(string \<times> dyn) list \<Rightarrow> error + string"
  json_Decode :: "string \<Rightarrow> error + ChangelogResponse"

text \<open>
  What the outside answers during one run of the start-up block or of the callback:
  the response to the GET of a URL, the response to the POST made for the \<open>i\<close>-th
  configured webhook (to a URL, with a body), and the outcome of writing a file's data.
\<close>

record world =
  http_Get :: "string \<Rightarrow> error + Response"
  http_Post :: "nat \<Rightarrow> string \<Rightarrow> string \<Rightarrow> error + Response"
  os_WriteFile :: "string \<Rightarrow> write_outcome"

text \<open>
  The trace: a write of \<^verbatim>\<open>version.yml\<close> (its data, and whether it succeeded), a POST
  (URL and body), and the log lines, by the text of their first operand.
\<close>

datatype event =
    WriteFile string bool
  | HttpPost string string
  | Println string
  | Fatalln string

datatype status = Running | Exited

record proc =
  version_yml :: "string option"
  events :: "event list"

subsection \<open>Operations\<close>

definition println :: "string \<Rightarrow> proc \<Rightarrow> proc" where
  "println msg s = s\<lparr>events := events s @ [Println msg]\<rparr>"

definition fatalln :: "string \<Rightarrow> proc \<Rightarrow> proc" where
  "fatalln msg s = s\<lparr>events := events s @ [Fatalln msg]\<rparr>"

text \<open>\<^verbatim>\<open>strconv.FormatBool\<close>.\<close>

definition FormatBool :: "bool \<Rightarrow> string" where
  "FormatBool b = (if b then ''true'' else ''false'')"

text \<open>The map literal handed to \<^verbatim>\<open>json.Marshal\<close> in the notification loop.\<close>

definition payload :: "Changelog \<Rightarrow> (string \<times> dyn) list" where
  "payload changelog =
     [(''content'', String (''New version '' @ Changelog.Version changelog @ '' is available!'')),
      (''version'', String (Changelog.Version changelog)),
      (''size'', String (Size changelog)),
      (''hasModUpdate'', String (FormatBool (length (ChangeMod changelog) > 0))),
      (''releaseAt'', String (ReleaseAt changelog))]"

definition TriggerWebhook :: "world \<Rightarrow> nat \<Rightarrow> string \<Rightarrow> string \<Rightarrow> proc \<Rightarrow> error option \<times> proc" where
  "TriggerWebhook w i webhook requestBody s =
     (let s' = s\<lparr>events := events s @ [HttpPost webhook requestBody]\<rparr> in
      case http_Post w i webhook requestBody of
        Inl err \<Rightarrow> (Some (Errorf ''error making POST request: '' err), s')
      | Inr resp \<Rightarrow>
          if StatusCode resp \<noteq> 200 then (Some (UnexpectedStatus (StatusCode resp)), s')
          else (None, s'))"

definition DoesFileExist :: "proc \<Rightarrow> bool" where
  "DoesFileExist s = (version_yml s \<noteq> None)"

definition GetChangelogs :: "lib \<Rightarrow> world \<Rightarrow> error + Changelog list" where
  "GetChangelogs lib w =
     (case http_Get w ''https://api.panthor.de/v1/changelog'' of
        Inl err \<Rightarrow> Inl (Errorf ''error making GET request: '' err)
      | Inr resp \<Rightarrow>
          if StatusCode resp \<noteq> 200 then Inl (UnexpectedStatus (StatusCode resp))
          else (case json_Decode lib (Body resp) of
                  Inl err \<Rightarrow> Inl (Errorf ''error decoding response body: '' err)
                | Inr parsedResponse \<Rightarrow> Inr (Data parsedResponse)))"

definition GetSavedVerison :: "lib \<Rightarrow> proc \<Rightarrow> error + Version" where
  "GetSavedVerison lib s =
     (case version_yml s of
        None \<Rightarrow> Inl (Errorf ''error reading the file: '' (Extern ''no such file or directory''))
      | Some data \<Rightarrow>
          (case yaml_Unmarshal lib data of
             Inl err \<Rightarrow> Inl (Errorf ''error parsing the YAML file: '' err)
           | Inr version \<Rightarrow> Inr version))"

definition SaveVersion :: "lib \<Rightarrow> world \<Rightarrow> string \<Rightarrow> proc \<Rightarrow> error option \<times> proc" where
  "SaveVersion lib w version s =
     (case yaml_Marshal lib \<lparr>Version.Version = version\<rparr> of
        Inl err \<Rightarrow> (Some (Errorf ''error marshaling data to YAML: '' err), s)
      | Inr yamlData \<Rightarrow>
          (case os_WriteFile w yamlData of
             WriteFailed err left \<Rightarrow>
               (Some (Errorf ''error writing to file: '' err),
                s\<lparr>version_yml := left, events := events s @ [WriteFile yamlData False]\<rparr>)
           | Written \<Rightarrow>
               (None,
                s\<lparr>version_yml := Some yamlData, events := events s @ [WriteFile yamlData True]\<rparr>)))"

text \<open>
  The notification loop of the callback (\<^verbatim>\<open>for _, webhook := range ...\<close>); \<open>i\<close> is the
  index of the webhook in the configured list.
\<close>

fun notify :: "lib \<Rightarrow> world \<Rightarrow> Changelog \<Rightarrow> nat \<Rightarrow> string list \<Rightarrow> proc \<Rightarrow> proc" where
  "notify lib w changelog i [] s = s"
| "notify lib w changelog i (webhook # webhooks) s =
     (case json_Marshal lib (payload changelog) of
        Inl err \<Rightarrow>
          notify lib w changelog (Suc i) webhooks (println ''Failed to marshal request body:'' s)
      | Inr requestBody \<Rightarrow>
          (case TriggerWebhook w i webhook requestBody s of
             (Some err, s') \<Rightarrow>
               notify lib w changelog (Suc i) webhooks (println ''Failed to trigger webhook:'' s')
           | (None, s') \<Rightarrow> notify lib w changelog (Suc i) webhooks s'))"

text \<open>
  The function scheduled with \<^verbatim>\<open>c.AddFunc\<close>: one check cycle. \<open>Running\<close>: the callback
  returned; \<open>Exited\<close>: it ended the process with \<^verbatim>\<open>log.Fatalln\<close>.
\<close>

definition callback :: "Config \<Rightarrow> lib \<Rightarrow> world \<Rightarrow> proc \<Rightarrow> status \<times> proc" where
  "callback config lib w s =
     (case GetChangelogs lib w of
        Inl err \<Rightarrow> (Exited, fatalln ''Failed to get changelogs:'' s)
      | Inr changelogs \<Rightarrow>
          if length changelogs = 0 then (Exited, fatalln ''no changelogs found'' s)
          else
            (let changelog = changelogs ! 0 in
             case GetSavedVerison lib s of
               Inl err \<Rightarrow> (Exited, fatalln ''Failed to get saved version:'' s)
             | Inr savedVersion \<Rightarrow>
                 if Changelog.Version changelog = Version.Version savedVersion
                 then (Running, println ''Version is the same! No new version avaiable.'' s)
                 else
                   (case SaveVersion lib w (Changelog.Version changelog)
                           (println ''New version is'' s) of
                      (Some err, s') \<Rightarrow> (Exited, fatalln ''Failed to save version:'' s')
                    | (None, s') \<Rightarrow>
                        (Running,
                         notify lib w changelog 0 (Webhooks (Notification config)) s'))))"

text \<open>The start-up block of \<^verbatim>\<open>main\<close>, after the configuration is loaded.\<close>

definition startup :: "Config \<Rightarrow> lib \<Rightarrow> world \<Rightarrow> proc \<Rightarrow> status \<times> proc" where
  "startup config lib w s =
     (if LoadOnStartup (App config) \<or> \<not> DoesFileExist s then
        (case GetChangelogs lib w of
           Inl err \<Rightarrow> (Exited, fatalln ''Failed to get changelogs:'' s)
         | Inr changelogs \<Rightarrow>
             if length changelogs = 0 then (Exited, fatalln ''no changelogs found'' s)
             else
               (case SaveVersion lib w (Changelog.Version (changelogs ! 0)) s of
                  (Some err, s') \<Rightarrow> (Exited, fatalln ''Failed to save version:'' s')
                | (None, s') \<Rightarrow> (Running, println ''Version of the first item:'' s')))
      else (Running, s))"

text \<open>
  The scheduler: the callback runs once per tick, each tick with its own world, one
  run at a time. A callback that ends the process ends the ticks: nothing runs after
  \<^verbatim>\<open>os.Exit\<close>. The process itself never returns (\<^verbatim>\<open>select {}\<close>); a finite list of
  ticks is a prefix of its life.
\<close>

fun ticks :: "Config \<Rightarrow> lib \<Rightarrow> world list \<Rightarrow> proc \<Rightarrow> status \<times> proc" where
  "ticks config lib [] s = (Running, s)"
| "ticks config lib (w # ws) s =
     (case callback config lib w s of
        (Exited, s') \<Rightarrow> (Exited, s')
      | (Running, s') \<Rightarrow> ticks config lib ws s')"

text \<open>
  \<^verbatim>\<open>main\<close>, from the result of \<^verbatim>\<open>LoadConfig("config.yml")\<close> on: the start-up block in the
  world \<open>w0\<close>, then the scheduled ticks.
\<close>

definition main :: "lib \<Rightarrow> error + Config \<Rightarrow> world \<Rightarrow> world list \<Rightarrow> proc \<Rightarrow> status \<times> proc" where
  "main lib loaded w0 ws s =
     (case loaded of
        Inl err \<Rightarrow> (Exited, fatalln ''Failed to load config:'' s)
      | Inr config \<Rightarrow>
          (case startup config lib w0 s of
             (Exited, s') \<Rightarrow> (Exited, s')
           | (Running, s') \<Rightarrow>
               ticks config lib ws (println ''Panthor Update Notification started...'' s')))"

subsection \<open>Reading the trace\<close>

text \<open>The POSTs of a trace (URL and body) and its writes (data and success), in order.\<close>

fun posts :: "event list \<Rightarrow> (string \<times> string) list" where
  "posts [] = []"
| "posts (HttpPost u b # es) = (u, b) # posts es"
| "posts (e # es) = posts es"

fun writes :: "event list \<Rightarrow> (string \<times> bool) list" where
  "writes [] = []"
| "writes (WriteFile d ok # es) = (d, ok) # writes es"
| "writes (e # es) = writes es"

text \<open>The events a run added: those of \<open>s'\<close> after the ones \<open>s\<close> already had.\<close>

definition since :: "proc \<Rightarrow> proc \<Rightarrow> event list" where
  "since s s' = drop (length (events s)) (events s')"

text \<open>A delivery failed: the request failed, or its status is not 200.\<close>

definition delivery_failed :: "error + Response \<Rightarrow> bool" where
  "delivery_failed r = (case r of Inl err \<Rightarrow> True | Inr resp \<Rightarrow> StatusCode resp \<noteq> 200)"

text \<open>
  The trace the notification loop leaves when the payload marshals to \<open>requestBody\<close>:
  for each webhook in turn the POST, followed by the log line when the delivery failed.
  Lemma \<open>notify_trace\<close> shows that the loop produces exactly this.
\<close>

fun deliveries :: "world \<Rightarrow> string \<Rightarrow> nat \<Rightarrow> string list \<Rightarrow> event list" where
  "deliveries w requestBody i [] = []"
| "deliveries w requestBody i (webhook # webhooks) =
     HttpPost webhook requestBody #
     (if delivery_failed (http_Post w i webhook requestBody)
      then [Println ''Failed to trigger webhook:''] else []) @
     deliveries w requestBody (Suc i) webhooks"

text \<open>
  The fetch, the load and the save of a cycle failed. \<open>save_failed\<close> is the error
  result of \<open>SaveVersion\<close>, which does not depend on the state (lemma
  \<open>SaveVersion_error\<close> below).
\<close>

definition fetch_failed :: "lib \<Rightarrow> world \<Rightarrow> bool" where
  "fetch_failed lib w = isl (GetChangelogs lib w)"

definition load_failed :: "lib \<Rightarrow> proc \<Rightarrow> bool" where
  "load_failed lib s = isl (GetSavedVerison lib s)"

definition save_failed :: "lib \<Rightarrow> world \<Rightarrow> string \<Rightarrow> bool" where
  "save_failed lib w version =
     (case yaml_Marshal lib \<lparr>Version.Version = version\<rparr> of
        Inl err \<Rightarrow> True
      | Inr yamlData \<Rightarrow> os_WriteFile w yamlData \<noteq> Written)"

subsection \<open>Conditions on the libraries\<close>


text \<open>\<^verbatim>\<open>json.Marshal\<close> returns no error on a map all of whose values are strings.\<close>

definition json_marshals_strings :: "lib \<Rightarrow> bool" where
  "json_marshals_strings lib =
     (\<forall>m. list_all (\<lambda>(k, v). v \<noteq> Other) m \<longrightarrow> \<not> isl (json_Marshal lib m))"

subsection \<open>A library and worlds for the examples\<close>

text \<open>
  A small stand-in for the libraries, for evaluating the program on concrete inputs:
  the version file is the text \<open>version: \<close> followed by the version, the response body
  is the newest version itself (\<open>[]\<close> for an empty list), and the request body lists
  the values of the payload.
\<close>

definition ex_yaml_Marshal :: "Version \<Rightarrow> error + string" where
  "ex_yaml_Marshal v = Inr (''version: '' @ Version.Version v)"

definition ex_yaml_Unmarshal :: "string \<Rightarrow> error + Version" where
  "ex_yaml_Unmarshal yamlData =
     (if take 9 yamlData = ''version: '' then Inr \<lparr>Version.Version = drop 9 yamlData\<rparr>
      else Inl (Extern ''yaml: unmarshal errors''))"

fun ex_render :: "(string \<times> dyn) list \<Rightarrow> string" where
  "ex_render [] = []"
| "ex_render ((k, String x) # m) = x @ ''|'' @ ex_render m"
| "ex_render ((k, Other) # m) = ex_render m"

definition ex_json_Marshal :: "(string \<times> dyn) list \<Rightarrow> error + string" where
  "ex_json_Marshal m =
     (if list_all (\<lambda>(k, v). v \<noteq> Other) m then Inr (ex_render m)
      else Inl (Extern ''json: unsupported type''))"

definition ex_entry :: "string \<Rightarrow> string list \<Rightarrow> Changelog" where
  "ex_entry v mods =
     \<lparr>ID = 1, Version = v, ChangeMission = [], ChangeMap = [], ChangeMod = mods, Note = [],
      Active = 1, Size = [], ReallifeRpg = 0, ReleaseAt = ''2024-05-23'', CreatedAt = [],
      UpdatedAt = []\<rparr>"

definition ex_json_Decode :: "string \<Rightarrow> error + ChangelogResponse" where
  "ex_json_Decode body =
     (if body = ''[]'' then Inr \<lparr>Data = [], RequestedAt = 0\<rparr>
      else Inr \<lparr>Data = [ex_entry body []], RequestedAt = 0\<rparr>)"

definition ex_lib :: lib where
  "ex_lib = \<lparr>yaml_Marshal = ex_yaml_Marshal, yaml_Unmarshal = ex_yaml_Unmarshal,
             json_Marshal = ex_json_Marshal, json_Decode = ex_json_Decode\<rparr>"

definition ex_config :: Config where
  "ex_config =
     \<lparr>App = \<lparr>Interval = ''1 * * * *'', LoadOnStartup = False\<rparr>,
      Notification = \<lparr>Webhooks = [''A'', ''B'', ''C'']\<rparr>\<rparr>"

text \<open>The API answers 200 with the body, every POST is answered 200, the write succeeds.\<close>

definition world_ok :: "string \<Rightarrow> world" where
  "world_ok body =
     \<lparr>http_Get = (\<lambda>url. Inr \<lparr>StatusCode = 200, Body = body\<rparr>),
      http_Post = (\<lambda>i url requestBody. Inr \<lparr>StatusCode = 200, Body = []\<rparr>),
      os_WriteFile = (\<lambda>yamlData. Written)\<rparr>"

text \<open>As \<open>world_ok\<close>, but the write fails and leaves the file truncated.\<close>

definition world_disk_full :: "string \<Rightarrow> world" where
  "world_disk_full body =
     (world_ok body)\<lparr>os_WriteFile :=
        (\<lambda>yamlData. WriteFailed (Extern ''no space left on device'') (Some []))\<rparr>"

text \<open>As \<open>world_ok\<close>, but the API cannot be reached.\<close>

definition world_api_down :: world where
  "world_api_down =
     (world_ok [])\<lparr>http_Get := (\<lambda>url. Inl (Extern ''connection refused''))\<rparr>"

text \<open>As \<open>world_ok\<close>, but the POST for the second webhook is answered 500.\<close>

definition world_second_fails :: "string \<Rightarrow> world" where
  "world_second_fails body =
     (world_ok body)\<lparr>http_Post :=
        (\<lambda>i url requestBody. Inr \<lparr>StatusCode = (if i = 1 then 500 else 200), Body = []\<rparr>)\<rparr>"




text \<open>
  A process whose version file holds version 1, one that has no version file, and one
  whose version file cannot be parsed.
\<close>

definition proc_v1 :: proc where
  "proc_v1 = \<lparr>version_yml = Some ''version: 1'', events = []\<rparr>"

definition proc_fresh :: proc where
  "proc_fresh = \<lparr>version_yml = None, events = []\<rparr>"

definition proc_corrupt :: proc where
  "proc_corrupt = \<lparr>version_yml = Some ''???'', events = []\<rparr>"

section \<open>Lemmas\<close>

subsection \<open>The trace and the notification loop\<close>

lemma posts_append: "posts (xs @ ys) = posts xs @ posts ys"
  by (induction xs rule: posts.induct) simp_all

lemma writes_append: "writes (xs @ ys) = writes xs @ writes ys"
  by (induction xs rule: writes.induct) simp_all

lemma posts_nth: "posts xs = [] \<Longrightarrow> i < length xs \<Longrightarrow> xs ! i \<noteq> HttpPost u b"
  by (induction xs arbitrary: i rule: posts.induct) (auto simp: nth_Cons split: nat.splits)

lemma since_append: "events s' = events s @ new \<Longrightarrow> since s s' = new"
  by (simp add: since_def)

lemma since_println: "since s (println m s) = [Println m]"
  by (simp add: since_def println_def)

lemma since_fatalln: "since s (fatalln m s) = [Fatalln m]"
  by (simp add: since_def fatalln_def)

lemma TriggerWebhook_state:
  "snd (TriggerWebhook w i u b s) = s\<lparr>events := events s @ [HttpPost u b]\<rparr>"
  by (simp add: TriggerWebhook_def Let_def split: sum.splits)

lemma TriggerWebhook_error:
  "(fst (TriggerWebhook w i u b s) \<noteq> None) = delivery_failed (http_Post w i u b)"
  by (simp add: TriggerWebhook_def delivery_failed_def Let_def split: sum.splits)

lemma SaveVersion_error: "(fst (SaveVersion lib w v s) \<noteq> None) = save_failed lib w v"
  by (simp add: SaveVersion_def save_failed_def split: sum.splits write_outcome.splits)


text \<open>The loop never touches the version file, whatever the marshalling returns.\<close>

lemma notify_version_yml: "version_yml (notify lib w cl i ws s) = version_yml s"
proof (induction ws arbitrary: i s)
  case Nil
  show ?case by simp
next
  case (Cons u ws)
  show ?case
  proof (cases "json_Marshal lib (payload cl)")
    case (Inl e)
    then show ?thesis by (simp add: Cons.IH println_def)
  next
    case (Inr b)
    obtain r s' where t: "TriggerWebhook w i u b s = (r, s')"
      by (cases "TriggerWebhook w i u b s")
    have s': "s' = s\<lparr>events := events s @ [HttpPost u b]\<rparr>"
      using TriggerWebhook_state [of w i u b s] t by simp
    show ?thesis using Inr t s' by (cases r) (simp_all add: Cons.IH println_def)
  qed
qed

lemma notify_writes: "writes (events (notify lib w cl i ws s)) = writes (events s)"
proof (induction ws arbitrary: i s)
  case Nil
  show ?case by simp
next
  case (Cons u ws)
  show ?case
  proof (cases "json_Marshal lib (payload cl)")
    case (Inl e)
    then show ?thesis by (simp add: Cons.IH println_def writes_append)
  next
    case (Inr b)
    obtain r s' where t: "TriggerWebhook w i u b s = (r, s')"
      by (cases "TriggerWebhook w i u b s")
    have s': "s' = s\<lparr>events := events s @ [HttpPost u b]\<rparr>"
      using TriggerWebhook_state [of w i u b s] t by simp
    show ?thesis using Inr t s' by (cases r) (simp_all add: Cons.IH println_def writes_append)
  qed
qed

lemma notify_extends: "\<exists>new. events (notify lib w cl i ws s) = events s @ new"
proof (induction ws arbitrary: i s)
  case Nil
  show ?case by simp
next
  case (Cons u ws)
  show ?case
  proof (cases "json_Marshal lib (payload cl)")
    case (Inl e)
    obtain new where
      "events (notify lib w cl (Suc i) ws (println ''Failed to marshal request body:'' s))
        = events (println ''Failed to marshal request body:'' s) @ new"
      using Cons.IH by blast
    then show ?thesis using Inl by (simp add: println_def)
  next
    case (Inr b)
    obtain r s' where t: "TriggerWebhook w i u b s = (r, s')"
      by (cases "TriggerWebhook w i u b s")
    have s': "s' = s\<lparr>events := events s @ [HttpPost u b]\<rparr>"
      using TriggerWebhook_state [of w i u b s] t by simp
    show ?thesis
    proof (cases r)
      case None
      obtain new where "events (notify lib w cl (Suc i) ws s') = events s' @ new"
        using Cons.IH by blast
      then show ?thesis using Inr t s' None by simp
    next
      case (Some e)
      obtain new where
        "events (notify lib w cl (Suc i) ws (println ''Failed to trigger webhook:'' s'))
          = events (println ''Failed to trigger webhook:'' s') @ new"
        using Cons.IH by blast
      then show ?thesis using Inr t s' Some by (simp add: println_def)
    qed
  qed
qed

lemma since_notify:
  assumes t: "events t = events s @ pre"
  shows "since s (notify lib w cl i ws t) = pre @ since t (notify lib w cl i ws t)"
proof -
  obtain new where "events (notify lib w cl i ws t) = events t @ new"
    using notify_extends by blast
  then show ?thesis using t by (simp add: since_def)
qed

lemma writes_since_notify: "writes (since t (notify lib w cl i ws t)) = []"
proof -
  obtain new where n: "events (notify lib w cl i ws t) = events t @ new"
    using notify_extends by blast
  have "writes (events t) @ writes new = writes (events t)"
    using notify_writes [of lib w cl i ws t] n by (simp add: writes_append)
  then show ?thesis using n by (simp add: since_append)
qed

text \<open>When the payload marshals, the loop's trace is \<open>deliveries\<close>.\<close>

lemma notify_trace:
  "json_Marshal lib (payload cl) = Inr b \<Longrightarrow>
   events (notify lib w cl i ws s) = events s @ deliveries w b i ws"
proof (induction ws arbitrary: i s)
  case Nil
  show ?case by simp
next
  case (Cons u ws)
  obtain r s' where t: "TriggerWebhook w i u b s = (r, s')"
    by (cases "TriggerWebhook w i u b s")
  have s': "s' = s\<lparr>events := events s @ [HttpPost u b]\<rparr>"
    using TriggerWebhook_state [of w i u b s] t by simp
  have r: "(r \<noteq> None) = delivery_failed (http_Post w i u b)"
    using TriggerWebhook_error [of w i u b s] t by simp
  show ?case
  proof (cases r)
    case None
    then show ?thesis using Cons.prems t s' r by (simp add: Cons.IH [OF Cons.prems])
  next
    case (Some e)
    then show ?thesis using Cons.prems t s' r
      by (simp add: Cons.IH [OF Cons.prems] println_def)
  qed
qed

lemma posts_deliveries: "posts (deliveries w b i ws) = map (\<lambda>u. (u, b)) ws"
  by (induction ws arbitrary: i) simp_all

lemma writes_deliveries: "writes (deliveries w b i ws) = []"
  by (induction ws arbitrary: i) simp_all

lemma deliveries_append:
  "deliveries w b i (xs @ ys) = deliveries w b i xs @ deliveries w b (i + length xs) ys"
  by (induction xs arbitrary: i) simp_all

lemma no_marshal_log:
  "Println ''Failed to marshal request body:'' \<notin> set (deliveries w b i ws)"
  by (induction ws arbitrary: i) simp_all

lemma failure_logged:
  "delivery_failed (http_Post w (i + length xs) u b) \<Longrightarrow>
   Println ''Failed to trigger webhook:'' \<in> set (deliveries w b i (xs @ u # ys))"
  by (simp add: deliveries_append)

lemma payload_strings: "list_all (\<lambda>(k, v). v \<noteq> Other) (payload cl)"
  by (simp add: payload_def)

subsection \<open>The branches of the callback\<close>

lemma callback_fetch_error:
  "GetChangelogs lib w = Inl e \<Longrightarrow>
   callback config lib w s = (Exited, fatalln ''Failed to get changelogs:'' s)"
  by (simp add: callback_def)

lemma callback_empty:
  "GetChangelogs lib w = Inr [] \<Longrightarrow>
   callback config lib w s = (Exited, fatalln ''no changelogs found'' s)"
  by (simp add: callback_def)

lemma callback_load_error:
  "GetChangelogs lib w = Inr (cl # rest) \<Longrightarrow> GetSavedVerison lib s = Inl e \<Longrightarrow>
   callback config lib w s = (Exited, fatalln ''Failed to get saved version:'' s)"
  by (simp add: callback_def)

lemma callback_unchanged:
  "GetChangelogs lib w = Inr (cl # rest) \<Longrightarrow> GetSavedVerison lib s = Inr sv \<Longrightarrow>
   Changelog.Version cl = Version.Version sv \<Longrightarrow>
   callback config lib w s =
     (Running, println ''Version is the same! No new version avaiable.'' s)"
  by (simp add: callback_def)

lemma callback_marshal_error:
  "GetChangelogs lib w = Inr (cl # rest) \<Longrightarrow> GetSavedVerison lib s = Inr sv \<Longrightarrow>
   Changelog.Version cl \<noteq> Version.Version sv \<Longrightarrow>
   yaml_Marshal lib \<lparr>Version.Version = Changelog.Version cl\<rparr> = Inl e \<Longrightarrow>
   callback config lib w s =
     (Exited, fatalln ''Failed to save version:'' (println ''New version is'' s))"
  by (simp add: callback_def SaveVersion_def)

lemma callback_write_error:
  "GetChangelogs lib w = Inr (cl # rest) \<Longrightarrow> GetSavedVerison lib s = Inr sv \<Longrightarrow>
   Changelog.Version cl \<noteq> Version.Version sv \<Longrightarrow>
   yaml_Marshal lib \<lparr>Version.Version = Changelog.Version cl\<rparr> = Inr data \<Longrightarrow>
   os_WriteFile w data = WriteFailed e left \<Longrightarrow>
   callback config lib w s =
     (Exited, s\<lparr>version_yml := left,
                events := events s @ [Println ''New version is'', WriteFile data False,
                                      Fatalln ''Failed to save version:'']\<rparr>)"
  by (simp add: callback_def SaveVersion_def println_def fatalln_def)

lemma callback_updating:
  "GetChangelogs lib w = Inr (cl # rest) \<Longrightarrow> GetSavedVerison lib s = Inr sv \<Longrightarrow>
   Changelog.Version cl \<noteq> Version.Version sv \<Longrightarrow>
   yaml_Marshal lib \<lparr>Version.Version = Changelog.Version cl\<rparr> = Inr data \<Longrightarrow>
   os_WriteFile w data = Written \<Longrightarrow>
   callback config lib w s =
     (Running,
      notify lib w cl 0 (Webhooks (Notification config))
        (s\<lparr>version_yml := Some data,
           events := events s @ [Println ''New version is'', WriteFile data True]\<rparr>))"
  by (simp add: callback_def SaveVersion_def println_def)


text \<open>The whole trace of a cycle that saves the new version and whose payload marshals.\<close>

lemma callback_updating_trace:
  assumes fetch: "GetChangelogs lib w = Inr (cl # rest)"
    and load: "GetSavedVerison lib s = Inr sv"
    and differ: "Changelog.Version cl \<noteq> Version.Version sv"
    and marshal: "yaml_Marshal lib \<lparr>Version.Version = Changelog.Version cl\<rparr> = Inr data"
    and written: "os_WriteFile w data = Written"
    and body: "json_Marshal lib (payload cl) = Inr b"
    and run: "callback config lib w s = (st, s')"
  shows "st = Running \<and> version_yml s' = Some data
     \<and> since s s' = Println ''New version is'' # WriteFile data True #
                      deliveries w b 0 (Webhooks (Notification config))"
proof -
  let ?t = "s\<lparr>version_yml := Some data,
               events := events s @ [Println ''New version is'', WriteFile data True]\<rparr>"
  let ?n = "notify lib w cl 0 (Webhooks (Notification config)) ?t"
  have r: "st = Running" "s' = ?n"
    using run callback_updating [OF fetch load differ marshal written, of config] by simp_all
  have "events ?n = events s @ Println ''New version is'' # WriteFile data True #
                      deliveries w b 0 (Webhooks (Notification config))"
    using notify_trace [OF body, of w 0 "Webhooks (Notification config)" ?t] by simp
  then have "since s ?n = Println ''New version is'' # WriteFile data True #
                      deliveries w b 0 (Webhooks (Notification config))"
    by (rule since_append)
  moreover have "version_yml ?n = Some data" unfolding notify_version_yml by simp
  ultimately show ?thesis using r by simp
qed

text \<open>
  Every cycle either makes no POST and no successful write, or it is a cycle that saved
  the new version: its trace starts with the log line and the successful write, and no
  other write follows.
\<close>

lemma callback_shape:
  assumes run: "callback config lib w s = (st, s')"
  shows "(posts (since s s') = [] \<and> (\<forall>d. (d, True) \<notin> set (writes (since s s'))))
     \<or> (\<exists>cl rest sv data N.
          GetChangelogs lib w = Inr (cl # rest) \<and> GetSavedVerison lib s = Inr sv
          \<and> Changelog.Version cl \<noteq> Version.Version sv
          \<and> yaml_Marshal lib \<lparr>Version.Version = Changelog.Version cl\<rparr> = Inr data
          \<and> os_WriteFile w data = Written
          \<and> since s s' = Println ''New version is'' # WriteFile data True # N
          \<and> writes N = [] \<and> version_yml s' = Some data)"
proof (cases "GetChangelogs lib w")
  case (Inl e)
  then have "s' = fatalln ''Failed to get changelogs:'' s"
    using run callback_fetch_error [of lib w e config s] by simp
  then show ?thesis by (simp add: since_fatalln)
next
  case (Inr cls)
  show ?thesis
  proof (cases cls)
    case Nil
    then have "s' = fatalln ''no changelogs found'' s"
      using run Inr callback_empty [of lib w config s] by simp
    then show ?thesis by (simp add: since_fatalln)
  next
    case (Cons cl rest)
    then have fetch: "GetChangelogs lib w = Inr (cl # rest)" using Inr by simp
    show ?thesis
    proof (cases "GetSavedVerison lib s")
      case (Inl e)
      then have "s' = fatalln ''Failed to get saved version:'' s"
        using run callback_load_error [OF fetch, of s e config] by simp
      then show ?thesis by (simp add: since_fatalln)
    next
      case load: (Inr sv)
      show ?thesis
      proof (cases "Changelog.Version cl = Version.Version sv")
        case True
        then have "s' = println ''Version is the same! No new version avaiable.'' s"
          using run callback_unchanged [OF fetch load, of config] by simp
        then show ?thesis by (simp add: since_println)
      next
        case differ: False
        show ?thesis
        proof (cases "yaml_Marshal lib \<lparr>Version.Version = Changelog.Version cl\<rparr>")
          case (Inl e)
          then have "s' = fatalln ''Failed to save version:'' (println ''New version is'' s)"
            using run callback_marshal_error [OF fetch load differ, of e config] by simp
          then show ?thesis by (simp add: since_def fatalln_def println_def)
        next
          case marshal: (Inr data)
          show ?thesis
          proof (cases "os_WriteFile w data")
            case (WriteFailed e left)
            then have "s' = s\<lparr>version_yml := left,
                events := events s @ [Println ''New version is'', WriteFile data False,
                                      Fatalln ''Failed to save version:'']\<rparr>"
              using run callback_write_error [OF fetch load differ marshal WriteFailed, of config]
              by simp
            then show ?thesis by (simp add: since_def)
          next
            case Written
            let ?t = "s\<lparr>version_yml := Some data,
               events := events s @ [Println ''New version is'', WriteFile data True]\<rparr>"
            let ?n = "notify lib w cl 0 (Webhooks (Notification config)) ?t"
            have s': "s' = ?n"
              using run callback_updating [OF fetch load differ marshal Written, of config]
              by simp
            have "events ?t = events s @ [Println ''New version is'', WriteFile data True]"
              by simp
            then have "since s ?n
                = [Println ''New version is'', WriteFile data True] @ since ?t ?n"
              by (rule since_notify)
            then have a: "since s s'
                = Println ''New version is'' # WriteFile data True # since ?t ?n"
              using s' by simp
            have b: "writes (since ?t ?n) = []" by (rule writes_since_notify)
            have c: "version_yml s' = Some data" unfolding s' notify_version_yml by simp
            show ?thesis using fetch load differ marshal Written a b c by blast
          qed
        qed
      qed
    qed
  qed
qed

subsection \<open>The examples, evaluated\<close>

lemmas ex_defs = callback_def startup_def GetChangelogs_def GetSavedVerison_def SaveVersion_def
  TriggerWebhook_def DoesFileExist_def println_def fatalln_def payload_def FormatBool_def
  ex_lib_def ex_config_def ex_yaml_Marshal_def ex_yaml_Unmarshal_def ex_json_Marshal_def
  ex_json_Decode_def ex_entry_def world_ok_def world_disk_full_def world_api_down_def
  world_second_fails_def proc_v1_def proc_fresh_def proc_corrupt_def Let_def

lemma ex_fetch: "GetChangelogs ex_lib (world_ok ''2'') = Inr [ex_entry ''2'' []]"
  by (simp add: ex_defs)

lemma ex_fetch_1: "GetChangelogs ex_lib (world_ok ''1'') = Inr [ex_entry ''1'' []]"
  by (simp add: ex_defs)

lemma ex_fetch_empty: "GetChangelogs ex_lib (world_ok ''[]'') = Inr []"
  by (simp add: ex_defs)

lemma ex_fetch_disk_full:
  "GetChangelogs ex_lib (world_disk_full ''2'') = Inr [ex_entry ''2'' []]"
  by (simp add: ex_defs)

lemma ex_fetch_disk_full_1:
  "GetChangelogs ex_lib (world_disk_full ''1'') = Inr [ex_entry ''1'' []]"
  by (simp add: ex_defs)

lemma ex_fetch_second_fails:
  "GetChangelogs ex_lib (world_second_fails ''2'') = Inr [ex_entry ''2'' []]"
  by (simp add: ex_defs)

lemma ex_fetch_failed: "fetch_failed ex_lib world_api_down"
  by (simp add: fetch_failed_def GetChangelogs_def world_api_down_def world_ok_def)

lemma ex_load: "GetSavedVerison ex_lib proc_v1 = Inr \<lparr>Version.Version = ''1''\<rparr>"
  by (simp add: ex_defs)

lemma ex_load_failed: "load_failed ex_lib proc_corrupt"
  by (simp add: load_failed_def ex_defs)

lemma ex_save_failed: "save_failed ex_lib (world_disk_full ''2'') ''2''"
  by (simp add: save_failed_def ex_defs)


lemma ex_marshals_strings: "json_marshals_strings ex_lib"
  by (simp add: json_marshals_strings_def ex_lib_def ex_json_Marshal_def)

lemma ex_body:
  "json_Marshal ex_lib (payload (ex_entry ''2'' []))
     = Inr ''New version 2 is available!|2||false|2024-05-23|''"
  by (simp add: ex_defs)







lemma ex_callback_ok:
  "callback ex_config ex_lib (world_ok ''2'') proc_v1 =
     (Running,
      \<lparr>version_yml = Some ''version: 2'',
       events = [Println ''New version is'', WriteFile ''version: 2'' True,
                 HttpPost ''A'' ''New version 2 is available!|2||false|2024-05-23|'',
                 HttpPost ''B'' ''New version 2 is available!|2||false|2024-05-23|'',
                 HttpPost ''C'' ''New version 2 is available!|2||false|2024-05-23|'']\<rparr>)"
  by (simp add: ex_defs)

lemma ex_callback_disk_full:
  "callback ex_config ex_lib (world_disk_full ''2'') proc_v1 =
     (Exited,
      \<lparr>version_yml = Some [],
       events = [Println ''New version is'', WriteFile ''version: 2'' False,
                 Fatalln ''Failed to save version:'']\<rparr>)"
  by (simp add: ex_defs)

lemma ex_callback_api_down:
  "callback ex_config ex_lib world_api_down proc_v1 =
     (Exited, \<lparr>version_yml = Some ''version: 1'',
               events = [Fatalln ''Failed to get changelogs:'']\<rparr>)"
  by (simp add: ex_defs)

lemma ex_startup_disk_full:
  "startup ex_config ex_lib (world_disk_full ''1'') proc_fresh
     = (Exited, \<lparr>version_yml = Some [],
                  events = [WriteFile ''version: 1'' False,
                            Fatalln ''Failed to save version:'']\<rparr>)"
  by (simp add: ex_defs)

lemma ex_main_api_down:
  "main ex_lib (Inr ex_config) (world_ok ''1'') [world_api_down, world_ok ''2''] proc_v1
     = (Exited, \<lparr>version_yml = Some ''version: 1'',
                  events = [Println ''Panthor Update Notification started...'',
                            Fatalln ''Failed to get changelogs:'']\<rparr>)"
  by (simp add: main_def startup_def DoesFileExist_def ex_config_def proc_v1_def println_def
      callback_def fatalln_def GetChangelogs_def world_api_down_def world_ok_def)

section \<open>The claims\<close>

subsection \<open>C1: change detection\<close>

text \<open>
  C1 as stated asks for one delivery attempt per webhook and an updated store in every
  cycle whose fetch and load succeed with differing versions. The callback saves first
  and ends the process when the save fails: with the stored version 1, the remote
  version 2 and a disk that is full, no webhook is tried and the file does not hold
  version 2.
\<close>

theorem change_with_failed_save_counterexample:
  "GetChangelogs ex_lib (world_disk_full ''2'') = Inr [ex_entry ''2'' []]
   \<and> Changelog.Version (ex_entry ''2'' []) = ''2''
   \<and> GetSavedVerison ex_lib proc_v1 = Inr \<lparr>Version.Version = ''1''\<rparr>
   \<and> Webhooks (Notification ex_config) = [''A'', ''B'', ''C'']
   \<and> posts (since proc_v1 (snd (callback ex_config ex_lib (world_disk_full ''2'') proc_v1))) = []
   \<and> version_yml (snd (callback ex_config ex_lib (world_disk_full ''2'') proc_v1)) = Some []"
  by (simp add: ex_callback_disk_full ex_fetch_disk_full ex_load)
     (simp add: since_def proc_v1_def ex_config_def ex_entry_def)

text \<open>
  C1, amended. In a cycle whose fetch returns a non-empty list with first version \<open>V2\<close>,
  whose load returns the stored version \<open>V1 \<noteq> V2\<close>, and whose save of \<open>V2\<close> succeeds,
  the POSTs of the cycle are exactly one per configured webhook, in order, each with the
  marshalled payload, whose \<open>version\<close> field is \<open>V2\<close>; the version file holds the
  marshalled \<open>V2\<close> afterwards and was written once. Nothing is assumed of the answers
  to the POSTs.
\<close>

theorem change_notifies_every_endpoint:
  assumes fetch: "GetChangelogs lib w = Inr (changelog # rest)"
      "Changelog.Version changelog = V2"
    and load: "GetSavedVerison lib s = Inr savedVersion" "Version.Version savedVersion = V1"
    and differ: "V2 \<noteq> V1"
    and save: "yaml_Marshal lib \<lparr>Version.Version = V2\<rparr> = Inr yamlData"
      "os_WriteFile w yamlData = Written"
    and body: "json_Marshal lib (payload changelog) = Inr requestBody"
    and run: "callback config lib w s = (st, s')"
  shows "posts (since s s')
       = map (\<lambda>webhook. (webhook, requestBody)) (Webhooks (Notification config))
     \<and> map_of (payload changelog) ''version'' = Some (String V2)
     \<and> version_yml s' = Some yamlData
     \<and> writes (since s s') = [(yamlData, True)]"
proof -
  have d: "Changelog.Version changelog \<noteq> Version.Version savedVersion"
    using fetch(2) load(2) differ by simp
  have m: "yaml_Marshal lib \<lparr>Version.Version = Changelog.Version changelog\<rparr> = Inr yamlData"
    using fetch(2) save(1) by simp
  have "map_of (payload changelog) ''version'' = Some (String V2)"
    using fetch(2) by (simp add: payload_def)
  then show ?thesis
    using callback_updating_trace [OF fetch(1) load(1) d m save(2) body run]
    by (simp add: posts_deliveries writes_deliveries)
qed

theorem change_notifies_every_endpoint_witness:
  "GetChangelogs ex_lib (world_ok ''2'') = Inr [ex_entry ''2'' []]
   \<and> GetSavedVerison ex_lib proc_v1 = Inr \<lparr>Version.Version = ''1''\<rparr>
   \<and> yaml_Marshal ex_lib \<lparr>Version.Version = ''2''\<rparr> = Inr ''version: 2''
   \<and> os_WriteFile (world_ok ''2'') ''version: 2'' = Written
   \<and> json_Marshal ex_lib (payload (ex_entry ''2'' []))
       = Inr ''New version 2 is available!|2||false|2024-05-23|''
   \<and> posts (since proc_v1 (snd (callback ex_config ex_lib (world_ok ''2'') proc_v1)))
       = [(''A'', ''New version 2 is available!|2||false|2024-05-23|''),
          (''B'', ''New version 2 is available!|2||false|2024-05-23|''),
          (''C'', ''New version 2 is available!|2||false|2024-05-23|'')]
   \<and> version_yml (snd (callback ex_config ex_lib (world_ok ''2'') proc_v1))
       = Some ''version: 2''"
proof -
  have v: "Changelog.Version (ex_entry ''2'' []) = ''2''" by (simp add: ex_entry_def)
  have l: "Version.Version \<lparr>Version.Version = ''1''\<rparr> = ''1''" by simp
  have d: "''2'' \<noteq> ''1''" by simp
  have m: "yaml_Marshal ex_lib \<lparr>Version.Version = ''2''\<rparr> = Inr ''version: 2''"
    by (simp add: ex_lib_def ex_yaml_Marshal_def)
  have wr: "os_WriteFile (world_ok ''2'') ''version: 2'' = Written" by (simp add: world_ok_def)
  have r: "callback ex_config ex_lib (world_ok ''2'') proc_v1
      = (fst (callback ex_config ex_lib (world_ok ''2'') proc_v1),
         snd (callback ex_config ex_lib (world_ok ''2'') proc_v1))"
    by simp
  have h: "Webhooks (Notification ex_config) = [''A'', ''B'', ''C'']"
    by (simp add: ex_config_def)
  show ?thesis
    using change_notifies_every_endpoint [OF ex_fetch v ex_load l d m wr ex_body r]
      ex_fetch ex_load m wr ex_body h
    by simp
qed

subsection \<open>C2: the save comes before every notification\<close>

text \<open>
  C2. In the trace of every cycle, each POST comes after a successful write of the
  version file, and the data of that write is the marshalled version of the first
  fetched entry, which the file holds at the end of the cycle. A cycle without a
  successful write makes no POST, and so does a cycle whose save fails.
\<close>

theorem save_precedes_every_notification:
  assumes run: "callback config lib w s = (st, s')"
  shows "(\<forall>i<length (since s s'). \<forall>webhook requestBody.
            since s s' ! i = HttpPost webhook requestBody \<longrightarrow>
            (\<exists>j<i. \<exists>changelog rest yamlData.
               GetChangelogs lib w = Inr (changelog # rest)
               \<and> yaml_Marshal lib \<lparr>Version.Version = Changelog.Version changelog\<rparr>
                   = Inr yamlData
               \<and> since s s' ! j = WriteFile yamlData True
               \<and> version_yml s' = Some yamlData))
     \<and> ((\<forall>yamlData. (yamlData, True) \<notin> set (writes (since s s')))
          \<longrightarrow> posts (since s s') = [])
     \<and> (\<forall>changelog rest. GetChangelogs lib w = Inr (changelog # rest)
            \<and> save_failed lib w (Changelog.Version changelog) \<longrightarrow> posts (since s s') = [])"
proof -
  from callback_shape [OF run]
  consider (quiet) "posts (since s s') = []" "\<forall>d. (d, True) \<notin> set (writes (since s s'))"
    | (updating) cl rest data N where
        "GetChangelogs lib w = Inr (cl # rest)"
        "yaml_Marshal lib \<lparr>Version.Version = Changelog.Version cl\<rparr> = Inr data"
        "os_WriteFile w data = Written"
        "since s s' = Println ''New version is'' # WriteFile data True # N"
        "version_yml s' = Some data"
    by blast
  then show ?thesis
  proof cases
    case quiet
    then show ?thesis using posts_nth [of "since s s'"] by blast
  next
    case updating
    have one: "\<exists>j<i. \<exists>changelog rest yamlData.
               GetChangelogs lib w = Inr (changelog # rest)
               \<and> yaml_Marshal lib \<lparr>Version.Version = Changelog.Version changelog\<rparr>
                   = Inr yamlData
               \<and> since s s' ! j = WriteFile yamlData True
               \<and> version_yml s' = Some yamlData"
      if "i < length (since s s')" "since s s' ! i = HttpPost u b" for i u b
    proof -
      have "i \<noteq> 0" using that(2) updating(4) by (cases i) auto
      moreover have "i \<noteq> 1" using that(2) updating(4) by auto
      ultimately have "1 < i" by simp
      moreover have "since s s' ! 1 = WriteFile data True" using updating(4) by simp
      ultimately show ?thesis using updating(1,2,5) by blast
    qed
    have two: "(data, True) \<in> set (writes (since s s'))" using updating(4) by simp
    have three: "\<not> save_failed lib w (Changelog.Version cl)"
      using updating(2,3) by (simp add: save_failed_def)
    show ?thesis using one two three updating(1) by auto
  qed
qed

theorem save_precedes_every_notification_witness:
  "since proc_v1 (snd (callback ex_config ex_lib (world_ok ''2'') proc_v1)) ! 2
     = HttpPost ''A'' ''New version 2 is available!|2||false|2024-05-23|''
   \<and> (\<exists>j<2. \<exists>changelog rest yamlData.
         GetChangelogs ex_lib (world_ok ''2'') = Inr (changelog # rest)
         \<and> yaml_Marshal ex_lib \<lparr>Version.Version = Changelog.Version changelog\<rparr> = Inr yamlData
         \<and> since proc_v1 (snd (callback ex_config ex_lib (world_ok ''2'') proc_v1)) ! j
             = WriteFile yamlData True)
   \<and> GetChangelogs ex_lib (world_disk_full ''2'') = Inr [ex_entry ''2'' []]
   \<and> save_failed ex_lib (world_disk_full ''2'') (Changelog.Version (ex_entry ''2'' []))
   \<and> posts (since proc_v1 (snd (callback ex_config ex_lib (world_disk_full ''2'') proc_v1))) = []"
proof -
  let ?new = "since proc_v1 (snd (callback ex_config ex_lib (world_ok ''2'') proc_v1))"
  have r: "callback ex_config ex_lib (world_ok ''2'') proc_v1
      = (fst (callback ex_config ex_lib (world_ok ''2'') proc_v1),
         snd (callback ex_config ex_lib (world_ok ''2'') proc_v1))"
    by simp
  have r': "callback ex_config ex_lib (world_disk_full ''2'') proc_v1
      = (fst (callback ex_config ex_lib (world_disk_full ''2'') proc_v1),
         snd (callback ex_config ex_lib (world_disk_full ''2'') proc_v1))"
    by simp
  have len: "2 < length ?new"
    by (simp add: ex_callback_ok) (simp add: since_def proc_v1_def)
  have at: "?new ! 2 = HttpPost ''A'' ''New version 2 is available!|2||false|2024-05-23|''"
    by (simp add: ex_callback_ok) (simp add: since_def proc_v1_def)
  have sf: "save_failed ex_lib (world_disk_full ''2'') (Changelog.Version (ex_entry ''2'' []))"
    using ex_save_failed by (simp add: ex_entry_def)
  have one: "\<exists>j<2. \<exists>changelog rest yamlData.
         GetChangelogs ex_lib (world_ok ''2'') = Inr (changelog # rest)
         \<and> yaml_Marshal ex_lib \<lparr>Version.Version = Changelog.Version changelog\<rparr> = Inr yamlData
         \<and> ?new ! j = WriteFile yamlData True"
    using save_precedes_every_notification [OF r] len at by blast
  have two:
    "posts (since proc_v1 (snd (callback ex_config ex_lib (world_disk_full ''2'') proc_v1))) = []"
    using save_precedes_every_notification [OF r'] ex_fetch_disk_full sf by blast
  show ?thesis using at one two ex_fetch_disk_full sf by blast
qed

subsection \<open>C3: errors of a cycle and the life of the process\<close>

text \<open>
  C3 as stated says that a fetch or store error never ends the process and that the
  next tick runs. The callback reports these errors with \<^verbatim>\<open>log.Fatalln\<close>: with the
  API unreachable at the first tick, the process has exited after it, and the second
  tick, at which the API is back with a new version, never runs.
\<close>

theorem fetch_error_ends_process_counterexample:
  "fetch_failed ex_lib world_api_down
   \<and> fst (callback ex_config ex_lib world_api_down proc_v1) = Exited
   \<and> ticks ex_config ex_lib [world_api_down, world_ok ''2''] proc_v1
       = (Exited, \<lparr>version_yml = Some ''version: 1'',
                    events = [Fatalln ''Failed to get changelogs:'']\<rparr>)
   \<and> main ex_lib (Inr ex_config) (world_ok ''1'') [world_api_down, world_ok ''2''] proc_v1
       = (Exited, \<lparr>version_yml = Some ''version: 1'',
                    events = [Println ''Panthor Update Notification started...'',
                              Fatalln ''Failed to get changelogs:'']\<rparr>)"
  by (simp add: ex_callback_api_down ex_fetch_failed ex_main_api_down)

text \<open>
  C3, amended. A fetch error, a load error, or a save error (the save is tried when the
  versions differ) aborts the cycle without any POST and ends the process: whatever
  ticks follow, none of them runs.
\<close>

theorem cycle_error_ends_the_process:
  assumes "fetch_failed lib w
     \<or> (\<exists>changelog rest. GetChangelogs lib w = Inr (changelog # rest)
          \<and> (load_failed lib s
             \<or> (\<exists>savedVersion. GetSavedVerison lib s = Inr savedVersion
                  \<and> Changelog.Version changelog \<noteq> Version.Version savedVersion
                  \<and> save_failed lib w (Changelog.Version changelog))))"
  shows "fst (callback config lib w s) = Exited
     \<and> posts (since s (snd (callback config lib w s))) = []
     \<and> ticks config lib (w # ws) s = callback config lib w s"
proof -
  obtain st s' where run: "callback config lib w s = (st, s')"
    by (cases "callback config lib w s")
  have st: "st = Exited"
    using assms
  proof (elim disjE exE conjE)
    assume "fetch_failed lib w"
    then obtain e where "GetChangelogs lib w = Inl e"
      by (cases "GetChangelogs lib w") (simp_all add: fetch_failed_def)
    then show ?thesis using run callback_fetch_error [of lib w e config s] by simp
  next
    fix cl rest
    assume fetch: "GetChangelogs lib w = Inr (cl # rest)" and "load_failed lib s"
    then obtain e where "GetSavedVerison lib s = Inl e"
      by (cases "GetSavedVerison lib s") (simp_all add: load_failed_def)
    then show ?thesis using run callback_load_error [OF fetch, of s e config] by simp
  next
    fix cl rest sv
    assume fetch: "GetChangelogs lib w = Inr (cl # rest)"
      and load: "GetSavedVerison lib s = Inr sv"
      and differ: "Changelog.Version cl \<noteq> Version.Version sv"
      and fail: "save_failed lib w (Changelog.Version cl)"
    show ?thesis
    proof (cases "yaml_Marshal lib \<lparr>Version.Version = Changelog.Version cl\<rparr>")
      case (Inl e)
      then show ?thesis
        using run callback_marshal_error [OF fetch load differ, of e config] by simp
    next
      case (Inr data)
      then obtain e left where wf: "os_WriteFile w data = WriteFailed e left"
        using fail by (cases "os_WriteFile w data") (simp_all add: save_failed_def)
      show ?thesis
        using run callback_write_error [OF fetch load differ Inr wf, of config] by simp
    qed
  qed
  from callback_shape [OF run] have "posts (since s s') = []"
    using st run callback_updating by fastforce
  then show ?thesis using run st by simp
qed

theorem cycle_error_ends_the_process_witness:
  "fetch_failed ex_lib world_api_down
   \<and> ticks ex_config ex_lib [world_api_down, world_ok ''2''] proc_v1
       = callback ex_config ex_lib world_api_down proc_v1
   \<and> fst (callback ex_config ex_lib world_api_down proc_v1) = Exited
   \<and> GetChangelogs ex_lib (world_ok ''2'') = Inr [ex_entry ''2'' []]
   \<and> load_failed ex_lib proc_corrupt
   \<and> fst (callback ex_config ex_lib (world_ok ''2'') proc_corrupt) = Exited
   \<and> posts (since proc_corrupt (snd (callback ex_config ex_lib (world_ok ''2'') proc_corrupt))) = []
   \<and> save_failed ex_lib (world_disk_full ''2'') ''2''
   \<and> fst (callback ex_config ex_lib (world_disk_full ''2'') proc_v1) = Exited
   \<and> posts (since proc_v1 (snd (callback ex_config ex_lib (world_disk_full ''2'') proc_v1))) = []"
proof -
  have a: "fetch_failed ex_lib world_api_down
     \<or> (\<exists>changelog rest. GetChangelogs ex_lib world_api_down = Inr (changelog # rest)
          \<and> (load_failed ex_lib proc_v1
             \<or> (\<exists>savedVersion. GetSavedVerison ex_lib proc_v1 = Inr savedVersion
                  \<and> Changelog.Version changelog \<noteq> Version.Version savedVersion
                  \<and> save_failed ex_lib world_api_down (Changelog.Version changelog))))"
    using ex_fetch_failed by simp
  have b: "fetch_failed ex_lib (world_ok ''2'')
     \<or> (\<exists>changelog rest. GetChangelogs ex_lib (world_ok ''2'') = Inr (changelog # rest)
          \<and> (load_failed ex_lib proc_corrupt
             \<or> (\<exists>savedVersion. GetSavedVerison ex_lib proc_corrupt = Inr savedVersion
                  \<and> Changelog.Version changelog \<noteq> Version.Version savedVersion
                  \<and> save_failed ex_lib (world_ok ''2'') (Changelog.Version changelog))))"
    using ex_fetch ex_load_failed by simp
  have v: "Changelog.Version (ex_entry ''2'' []) \<noteq> Version.Version \<lparr>Version.Version = ''1''\<rparr>"
    by (simp add: ex_entry_def)
  have v2: "Changelog.Version (ex_entry ''2'' []) = ''2''"
    by (simp add: ex_entry_def)
  have c: "fetch_failed ex_lib (world_disk_full ''2'')
     \<or> (\<exists>changelog rest. GetChangelogs ex_lib (world_disk_full ''2'') = Inr (changelog # rest)
          \<and> (load_failed ex_lib proc_v1
             \<or> (\<exists>savedVersion. GetSavedVerison ex_lib proc_v1 = Inr savedVersion
                  \<and> Changelog.Version changelog \<noteq> Version.Version savedVersion
                  \<and> save_failed ex_lib (world_disk_full ''2'') (Changelog.Version changelog))))"
    using ex_fetch_disk_full ex_load v v2 ex_save_failed by simp
  show ?thesis
    using cycle_error_ends_the_process [OF a, of ex_config "[world_ok ''2'']"]
      cycle_error_ends_the_process [OF b, of ex_config "[]"]
      cycle_error_ends_the_process [OF c, of ex_config "[]"]
      ex_fetch_failed ex_fetch ex_load_failed ex_save_failed
    by simp
qed

subsection \<open>C4: seeding\<close>

text \<open>
  C4 as stated says that every run that starts without a version file and fetches a
  non-empty list persists the first version. The start-up block ends the process when
  the save fails: with a full disk, nothing of version 1 is in the file afterwards.
\<close>

theorem seed_with_failed_save_counterexample:
  "version_yml proc_fresh = None
   \<and> GetChangelogs ex_lib (world_disk_full ''1'') = Inr [ex_entry ''1'' []]
   \<and> Changelog.Version (ex_entry ''1'' []) = ''1''
   \<and> yaml_Marshal ex_lib \<lparr>Version.Version = ''1''\<rparr> = Inr ''version: 1''
   \<and> startup ex_config ex_lib (world_disk_full ''1'') proc_fresh
       = (Exited, \<lparr>version_yml = Some [],
                    events = [WriteFile ''version: 1'' False,
                              Fatalln ''Failed to save version:'']\<rparr>)"
  by (simp add: ex_startup_disk_full ex_fetch_disk_full_1)
     (simp add: proc_fresh_def ex_entry_def ex_lib_def ex_yaml_Marshal_def)

text \<open>
  C4, amended. When the process starts without a version file, the fetch returns a
  non-empty list with first version \<open>V1\<close> and the save of \<open>V1\<close> succeeds, the start-up
  block leaves the marshalled \<open>V1\<close> in the version file, written once, makes no POST,
  and the process goes on.
\<close>

theorem seed_persists_without_notifying:
  assumes absent: "version_yml s = None"
    and fetch: "GetChangelogs lib w = Inr (changelog # rest)" "Changelog.Version changelog = V1"
    and save: "yaml_Marshal lib \<lparr>Version.Version = V1\<rparr> = Inr yamlData"
      "os_WriteFile w yamlData = Written"
    and run: "startup config lib w s = (st, s')"
  shows "st = Running \<and> version_yml s' = Some yamlData
     \<and> writes (since s s') = [(yamlData, True)] \<and> posts (since s s') = []"
proof -
  have "startup config lib w s =
      (Running, s\<lparr>version_yml := Some yamlData,
                  events := events s @ [WriteFile yamlData True,
                                        Println ''Version of the first item:'']\<rparr>)"
    using absent fetch save
    by (simp add: startup_def DoesFileExist_def SaveVersion_def println_def)
  then show ?thesis using run by (auto simp: since_def)
qed

theorem seed_persists_without_notifying_witness:
  "version_yml proc_fresh = None
   \<and> GetChangelogs ex_lib (world_ok ''1'') = Inr [ex_entry ''1'' []]
   \<and> yaml_Marshal ex_lib \<lparr>Version.Version = ''1''\<rparr> = Inr ''version: 1''
   \<and> os_WriteFile (world_ok ''1'') ''version: 1'' = Written
   \<and> fst (startup ex_config ex_lib (world_ok ''1'') proc_fresh) = Running
   \<and> version_yml (snd (startup ex_config ex_lib (world_ok ''1'') proc_fresh))
       = Some ''version: 1''
   \<and> posts (since proc_fresh (snd (startup ex_config ex_lib (world_ok ''1'') proc_fresh))) = []"
proof -
  have a: "version_yml proc_fresh = None" by (simp add: proc_fresh_def)
  have v: "Changelog.Version (ex_entry ''1'' []) = ''1''" by (simp add: ex_entry_def)
  have m: "yaml_Marshal ex_lib \<lparr>Version.Version = ''1''\<rparr> = Inr ''version: 1''"
    by (simp add: ex_lib_def ex_yaml_Marshal_def)
  have wr: "os_WriteFile (world_ok ''1'') ''version: 1'' = Written" by (simp add: world_ok_def)
  have r: "startup ex_config ex_lib (world_ok ''1'') proc_fresh
      = (fst (startup ex_config ex_lib (world_ok ''1'') proc_fresh),
         snd (startup ex_config ex_lib (world_ok ''1'') proc_fresh))"
    by simp
  show ?thesis
    using seed_persists_without_notifying [OF a ex_fetch_1 v m wr r] a ex_fetch_1 m wr by simp
qed

subsection \<open>C5: a failed delivery is isolated\<close>

text \<open>
  C5. In a cycle that saved the new version, when the delivery to one of the configured
  webhooks fails (the request fails or is not answered 200), the failure is logged, a
  POST is still made to every webhook before and after it, each once and in order, the
  callback returns, and the version file still holds the new version.
\<close>

theorem failed_delivery_is_isolated:
  assumes fetch: "GetChangelogs lib w = Inr (changelog # rest)"
    and load: "GetSavedVerison lib s = Inr savedVersion"
    and differ: "Changelog.Version changelog \<noteq> Version.Version savedVersion"
    and save: "yaml_Marshal lib \<lparr>Version.Version = Changelog.Version changelog\<rparr> = Inr yamlData"
      "os_WriteFile w yamlData = Written"
    and body: "json_Marshal lib (payload changelog) = Inr requestBody"
    and hooks: "Webhooks (Notification config) = before @ failing # after"
    and fails: "delivery_failed (http_Post w (length before) failing requestBody)"
    and run: "callback config lib w s = (st, s')"
  shows "posts (since s s')
       = map (\<lambda>webhook. (webhook, requestBody)) before @ (failing, requestBody) #
         map (\<lambda>webhook. (webhook, requestBody)) after
     \<and> Println ''Failed to trigger webhook:'' \<in> set (since s s')
     \<and> st = Running \<and> version_yml s' = Some yamlData"
proof -
  have "Println ''Failed to trigger webhook:''
      \<in> set (deliveries w requestBody 0 (before @ failing # after))"
    using fails failure_logged [of w 0 before failing requestBody after] by simp
  then show ?thesis
    using callback_updating_trace [OF fetch load differ save body run] hooks
    by (simp add: posts_deliveries)
qed

theorem failed_delivery_is_isolated_witness:
  "Webhooks (Notification ex_config) = [''A''] @ ''B'' # [''C'']
   \<and> delivery_failed (http_Post (world_second_fails ''2'') (length [''A'']) ''B''
        ''New version 2 is available!|2||false|2024-05-23|'')
   \<and> posts (since proc_v1 (snd (callback ex_config ex_lib (world_second_fails ''2'') proc_v1)))
       = [(''A'', ''New version 2 is available!|2||false|2024-05-23|''),
          (''B'', ''New version 2 is available!|2||false|2024-05-23|''),
          (''C'', ''New version 2 is available!|2||false|2024-05-23|'')]
   \<and> Println ''Failed to trigger webhook:''
       \<in> set (since proc_v1 (snd (callback ex_config ex_lib (world_second_fails ''2'') proc_v1)))
   \<and> version_yml (snd (callback ex_config ex_lib (world_second_fails ''2'') proc_v1))
       = Some ''version: 2''"
proof -
  have d: "Changelog.Version (ex_entry ''2'' []) \<noteq> Version.Version \<lparr>Version.Version = ''1''\<rparr>"
    by (simp add: ex_entry_def)
  have m: "yaml_Marshal ex_lib \<lparr>Version.Version = Changelog.Version (ex_entry ''2'' [])\<rparr>
      = Inr ''version: 2''"
    by (simp add: ex_lib_def ex_yaml_Marshal_def ex_entry_def)
  have wr: "os_WriteFile (world_second_fails ''2'') ''version: 2'' = Written"
    by (simp add: world_second_fails_def world_ok_def)
  have h: "Webhooks (Notification ex_config) = [''A''] @ ''B'' # [''C'']"
    by (simp add: ex_config_def)
  have f: "delivery_failed (http_Post (world_second_fails ''2'') (length [''A'']) ''B''
        ''New version 2 is available!|2||false|2024-05-23|'')"
    by (simp add: delivery_failed_def world_second_fails_def world_ok_def)
  have r: "callback ex_config ex_lib (world_second_fails ''2'') proc_v1
      = (fst (callback ex_config ex_lib (world_second_fails ''2'') proc_v1),
         snd (callback ex_config ex_lib (world_second_fails ''2'') proc_v1))"
    by simp
  show ?thesis
    using failed_delivery_is_isolated [OF ex_fetch_second_fails ex_load d m wr ex_body h f r] h f
    by simp
qed

subsection \<open>C6: a failed fetch changes nothing\<close>

text \<open>
  C6. In a cycle whose fetch fails (the request fails, the status is not 200, or the
  body does not decode) or returns an empty list, the version file is left as it was,
  no write is attempted and no POST is made.
\<close>

theorem failed_fetch_changes_nothing:
  assumes fetch: "fetch_failed lib w \<or> GetChangelogs lib w = Inr []"
    and run: "callback config lib w s = (st, s')"
  shows "version_yml s' = version_yml s \<and> writes (since s s') = [] \<and> posts (since s s') = []"
  using fetch
proof
  assume "fetch_failed lib w"
  then obtain e where "GetChangelogs lib w = Inl e"
    by (cases "GetChangelogs lib w") (simp_all add: fetch_failed_def)
  then have "s' = fatalln ''Failed to get changelogs:'' s"
    using run callback_fetch_error [of lib w e config s] by simp
  then show ?thesis by (simp add: since_fatalln) (simp add: fatalln_def)
next
  assume "GetChangelogs lib w = Inr []"
  then have "s' = fatalln ''no changelogs found'' s"
    using run callback_empty [of lib w config s] by simp
  then show ?thesis by (simp add: since_fatalln) (simp add: fatalln_def)
qed

theorem failed_fetch_changes_nothing_witness:
  "fetch_failed ex_lib world_api_down
   \<and> version_yml (snd (callback ex_config ex_lib world_api_down proc_v1)) = version_yml proc_v1
   \<and> writes (since proc_v1 (snd (callback ex_config ex_lib world_api_down proc_v1))) = []
   \<and> posts (since proc_v1 (snd (callback ex_config ex_lib world_api_down proc_v1))) = []
   \<and> GetChangelogs ex_lib (world_ok ''[]'') = Inr []
   \<and> version_yml (snd (callback ex_config ex_lib (world_ok ''[]'') proc_v1)) = version_yml proc_v1
   \<and> writes (since proc_v1 (snd (callback ex_config ex_lib (world_ok ''[]'') proc_v1))) = []
   \<and> posts (since proc_v1 (snd (callback ex_config ex_lib (world_ok ''[]'') proc_v1))) = []"
proof -
  have a: "fetch_failed ex_lib world_api_down \<or> GetChangelogs ex_lib world_api_down = Inr []"
    using ex_fetch_failed by simp
  have b: "fetch_failed ex_lib (world_ok ''[]'') \<or> GetChangelogs ex_lib (world_ok ''[]'') = Inr []"
    using ex_fetch_empty by simp
  have r: "callback ex_config ex_lib world_api_down proc_v1
      = (fst (callback ex_config ex_lib world_api_down proc_v1),
         snd (callback ex_config ex_lib world_api_down proc_v1))"
    by simp
  have r': "callback ex_config ex_lib (world_ok ''[]'') proc_v1
      = (fst (callback ex_config ex_lib (world_ok ''[]'') proc_v1),
         snd (callback ex_config ex_lib (world_ok ''[]'') proc_v1))"
    by simp
  show ?thesis
    using failed_fetch_changes_nothing [OF a r] failed_fetch_changes_nothing [OF b r']
      ex_fetch_failed ex_fetch_empty
    by simp
qed

subsection \<open>C7: idempotence\<close>




subsection \<open>C8: the mod-update flag\<close>

text \<open>
  C8. The \<open>hasModUpdate\<close> field of the notification payload is the string \<open>true\<close>
  exactly when the mod-change list of the triggering entry is not empty, and the
  string \<open>false\<close> exactly when it is empty.
\<close>

theorem hasModUpdate_iff_mod_changes:
  "(map_of (payload changelog) ''hasModUpdate'' = Some (String ''true''))
     = (ChangeMod changelog \<noteq> [])
   \<and> (map_of (payload changelog) ''hasModUpdate'' = Some (String ''false''))
     = (ChangeMod changelog = [])"
  by (simp add: payload_def FormatBool_def)

subsection \<open>C9: save, then load\<close>




subsection \<open>C10: the payload always marshals\<close>

text \<open>
  C10. Every value of the payload is a string, so \<^verbatim>\<open>json.Marshal\<close>, which returns no
  error on a map of strings, returns a request body for every changelog entry: the
  loop never logs a marshalling failure and makes a POST for every webhook.
\<close>

theorem payload_always_marshals:
  assumes "json_marshals_strings lib"
  shows "\<exists>requestBody. json_Marshal lib (payload changelog) = Inr requestBody
     \<and> posts (since s (notify lib w changelog i webhooks s))
         = map (\<lambda>webhook. (webhook, requestBody)) webhooks
     \<and> Println ''Failed to marshal request body:''
         \<notin> set (since s (notify lib w changelog i webhooks s))"
proof -
  have "\<not> isl (json_Marshal lib (payload changelog))"
    using assms payload_strings [of changelog] by (simp add: json_marshals_strings_def)
  then obtain b where b: "json_Marshal lib (payload changelog) = Inr b"
    by (cases "json_Marshal lib (payload changelog)") simp_all
  have "since s (notify lib w changelog i webhooks s) = deliveries w b i webhooks"
    using notify_trace [OF b] by (rule since_append)
  then show ?thesis using b by (simp add: posts_deliveries no_marshal_log)
qed

theorem payload_always_marshals_witness:
  "json_Marshal ex_lib (payload (ex_entry ''2'' [''fix'']))
     = Inr ''New version 2 is available!|2||true|2024-05-23|''
   \<and> posts (since proc_v1
        (notify ex_lib (world_second_fails ''2'') (ex_entry ''2'' [''fix'']) 0
           [''A'', ''B'', ''C''] proc_v1))
       = [(''A'', ''New version 2 is available!|2||true|2024-05-23|''),
          (''B'', ''New version 2 is available!|2||true|2024-05-23|''),
          (''C'', ''New version 2 is available!|2||true|2024-05-23|'')]"
proof -
  have m: "json_Marshal ex_lib (payload (ex_entry ''2'' [''fix'']))
      = Inr ''New version 2 is available!|2||true|2024-05-23|''"
    by (simp add: ex_lib_def ex_json_Marshal_def payload_def ex_entry_def FormatBool_def)
  show ?thesis
    using payload_always_marshals [OF ex_marshals_strings,
        of "ex_entry ''2'' [''fix'']" proc_v1 "world_second_fails ''2''" 0
           "[''A'', ''B'', ''C'']"] m
    by simp
qed

end
